theory Spec2Isabelle
  imports Main "HOL-Library.Word"
begin

section \<open>The Python binding shim of the N-body simulation\<close>

text \<open>
  The repository's one source file, \<^verbatim>\<open>nbody_wrapper.c\<close>, defines the extension
  function \<^verbatim>\<open>run_nbody_simulation(self, args)\<close>. It parses two strings, saves the
  working directory, changes to the output directory, calls the external \<^verbatim>\<open>main\<close>,
  changes back and relays \<^verbatim>\<open>main\<close>'s \<^verbatim>\<open>int\<close> as a Python integer.

  The function is modelled with explicit state passing. Everything it calls lives outside
  the repository (CPython, libc, the simulation's \<^verbatim>\<open>main\<close>), so what the operating
  system and \<^verbatim>\<open>main\<close> decide is a parameter of the model, and the effects of each call
  that the wrapper relies on are written out.
\<close>

subsection \<open>Values crossing the Python boundary\<close>

type_synonym path = string
type_synonym c_int = "32 word"
type_synonym c_long = "64 word"

text \<open>
  Python objects that can occur in the argument tuple. The text of a \<^verbatim>\<open>str\<close> is held as
  its UTF-8 bytes, the form in which the \<^verbatim>\<open>s\<close> format unit hands it to C.
\<close>

datatype pyobj = PyStr string | PyBytes string | PyLong int | PyNone

text \<open>
  A \<^verbatim>\<open>NULL\<close> return of the extension function comes with a pending exception; it is
  the \<open>Inl\<close> branch of the result.
\<close>

datatype pyexc = PyExc_TypeError | PyExc_ValueError | PyExc_OSError string

subsection \<open>The process and what the wrapper does to it\<close>

text \<open>
  The state of the process that the system calls and \<^verbatim>\<open>main\<close> act on: the working
  directory (as the absolute pathname \<^verbatim>\<open>getcwd\<close> reports) and the rest of the system
  (\<open>'fs\<close>: the file system and whatever else \<^verbatim>\<open>main\<close> reads and writes).
\<close>

record 'fs proc =
  cwd :: path
  fs :: 'fs

text \<open>
  What the wrapper itself does is recorded as a trace: its \<^verbatim>\<open>printf\<close> calls (format and
  arguments) and its calls of \<^verbatim>\<open>main\<close> (\<^verbatim>\<open>argc\<close> and the \<^verbatim>\<open>argv\<close> array, \<open>None\<close>
  being the \<^verbatim>\<open>NULL\<close> pointer).
\<close>

datatype printf_arg = Arg_str string | Arg_int int

datatype event =
    Printf string "printf_arg list"
  | Call_main c_int "string option list"

record 'fs world =
  proc :: "'fs proc"
  trace :: "event list"

text \<open>
  The environment: whether \<^verbatim>\<open>getcwd\<close> fails for a reason other than the buffer size,
  which directory a pathname leads to when \<^verbatim>\<open>chdir\<close> to it succeeds (\<open>None\<close> when it
  fails), and the external \<^verbatim>\<open>main\<close>, which returns a status and may change the process
  state in any way.
\<close>

record 'fs env =
  getcwd_fails :: "'fs proc \<Rightarrow> bool"
  chdir_target :: "'fs proc \<Rightarrow> path \<Rightarrow> path option"
  main :: "c_int \<Rightarrow> string option list \<Rightarrow> 'fs proc \<Rightarrow> c_int \<times> 'fs proc"

subsection \<open>The library calls\<close>

text \<open>
  \<^verbatim>\<open>PyArg_ParseTuple(args, "ss", &a, &b)\<close>: the tuple must hold exactly two objects
  (\<^verbatim>\<open>TypeError\<close> otherwise); each must be a \<^verbatim>\<open>str\<close> (\<^verbatim>\<open>TypeError\<close>) without an
  embedded null character (\<^verbatim>\<open>ValueError\<close>). The units are converted left to right and
  the first failure is the one reported.
\<close>

definition parse_s :: "pyobj \<Rightarrow> pyexc + string" where
  "parse_s ob =
     (case ob of
        PyStr s \<Rightarrow> (if CHR 0x00 \<in> set s then Inl PyExc_ValueError else Inr s)
      | _ \<Rightarrow> Inl PyExc_TypeError)"

definition PyArg_ParseTuple_ss :: "pyobj list \<Rightarrow> pyexc + (string \<times> string)" where
  "PyArg_ParseTuple_ss args =
     (case args of
        [a, b] \<Rightarrow>
          (case parse_s a of
             Inl e \<Rightarrow> Inl e
           | Inr x \<Rightarrow> (case parse_s b of Inl e \<Rightarrow> Inl e | Inr y \<Rightarrow> Inr (x, y)))
      | _ \<Rightarrow> Inl PyExc_TypeError)"

text \<open>\<^verbatim>\<open>printf(fmt, ...)\<close>: the call is appended to the trace; its return value is ignored
  by the wrapper.\<close>

definition printf :: "string \<Rightarrow> printf_arg list \<Rightarrow> 'fs world \<Rightarrow> 'fs world" where
  "printf fmt vals w = w\<lparr>trace := trace w @ [Printf fmt vals]\<rparr>"

text \<open>
  \<^verbatim>\<open>getcwd(buf, size)\<close>: \<^verbatim>\<open>NULL\<close> (here \<open>None\<close>) when the pathname with its terminating
  null byte does not fit into \<open>sz\<close> bytes or the system refuses; otherwise the pathname
  of the working directory. The process state is not changed.
\<close>

definition getcwd :: "'fs env \<Rightarrow> 'fs proc \<Rightarrow> nat \<Rightarrow> path option" where
  "getcwd env p sz =
     (if getcwd_fails env p \<or> sz < length (cwd p) + 1 then None else Some (cwd p))"

text \<open>
  \<^verbatim>\<open>chdir(path)\<close>: returns 0 and makes the directory the path leads to the working
  directory, or returns -1 and leaves the process state as it was.
\<close>

definition chdir :: "'fs env \<Rightarrow> path \<Rightarrow> 'fs proc \<Rightarrow> c_int \<times> 'fs proc" where
  "chdir env pth p =
     (case chdir_target env p pth of
        None \<Rightarrow> (- 1, p)
      | Some d \<Rightarrow> (0, p\<lparr>cwd := d\<rparr>))"

text \<open>The call of the external \<^verbatim>\<open>main\<close>, recorded in the trace.\<close>

definition call_main ::
  "'fs env \<Rightarrow> c_int \<Rightarrow> string option list \<Rightarrow> 'fs world \<Rightarrow> c_int \<times> 'fs world" where
  "call_main env argc argv w =
     (case main env argc argv (proc w) of
        (r, p') \<Rightarrow> (r, w\<lparr>proc := p', trace := trace w @ [Call_main argc argv]\<rparr>))"

text \<open>
  \<^verbatim>\<open>PyLong_FromLong(v)\<close>: the Python integer with the value of the C \<^verbatim>\<open>long\<close>. (The
  allocation of the integer object is taken to succeed.)
\<close>

definition PyLong_FromLong :: "c_long \<Rightarrow> pyobj" where
  "PyLong_FromLong v = PyLong (sint v)"

subsection \<open>The wrapper\<close>

text \<open>
  \<^verbatim>\<open>run_nbody_simulation\<close>, statement by statement. \<open>original_dir\<close> is the 1024-byte
  buffer; \<open>result\<close> is an \<^verbatim>\<open>int\<close>, converted to \<^verbatim>\<open>long\<close> (sign-extended) at the call of
  \<^verbatim>\<open>PyLong_FromLong\<close>.
\<close>

definition run_nbody_simulation ::
  "'fs env \<Rightarrow> pyobj list \<Rightarrow> 'fs world \<Rightarrow> (pyexc + pyobj) \<times> 'fs world" where
  "run_nbody_simulation env args w =
     (case PyArg_ParseTuple_ss args of
        Inl e \<Rightarrow> (Inl e, w)
      | Inr (input_file_path, output_dir_path) \<Rightarrow>
          (let w1 = printf ''N-body simulation starting...\<newline>'' [] w;
               w2 = printf ''Input file: %s\<newline>'' [Arg_str input_file_path] w1;
               w3 = printf ''Output directory: %s\<newline>'' [Arg_str output_dir_path] w2
           in case getcwd env (proc w3) 1024 of
                None \<Rightarrow> (Inl (PyExc_OSError ''Cannot get current directory''), w3)
              | Some original_dir \<Rightarrow>
                  (case chdir env output_dir_path (proc w3) of
                     (rc, p4) \<Rightarrow>
                       if rc \<noteq> 0
                       then (Inl (PyExc_OSError ''Cannot change to output directory''),
                             w3\<lparr>proc := p4\<rparr>)
                       else
                         (let argv_sim = [Some ''nbody_comp'', Some input_file_path, None];
                              argc_sim = 2
                          in case call_main env argc_sim argv_sim (w3\<lparr>proc := p4\<rparr>) of
                               (result, w5) \<Rightarrow>
                                 (case chdir env original_dir (proc w5) of
                                    (rc', p6) \<Rightarrow>
                                      (let w6 = w5\<lparr>proc := p6\<rparr>;
                                           w7 = (if rc' \<noteq> 0
                                                 then printf
                                                   ''Warning: Could not restore original directory\<newline>''
                                                   [] w6
                                                 else w6);
                                           w8 = printf
                                             ''N-body simulation completed with return code: %d\<newline>''
                                             [Arg_int (sint result)] w7
                                       in (Inr (PyLong_FromLong (scast result)), w8)))))))"

text \<open>The calls of \<^verbatim>\<open>main\<close> in a trace, in order, and every \<^verbatim>\<open>argv\<close> entry handed
  to \<^verbatim>\<open>main\<close> in it.\<close>

fun main_calls :: "event list \<Rightarrow> (c_int \<times> string option list) list" where
  "main_calls [] = []"
| "main_calls (Call_main argc argv # es) = (argc, argv) # main_calls es"
| "main_calls (Printf fmt vals # es) = main_calls es"

definition main_argv_entries :: "event list \<Rightarrow> string option list" where
  "main_argv_entries es = concat (map snd (main_calls es))"

text \<open>The three lines the wrapper prints once its arguments are parsed.\<close>

definition banner :: "string \<Rightarrow> string \<Rightarrow> event list" where
  "banner inp outd =
     [Printf ''N-body simulation starting...\<newline>'' [],
      Printf ''Input file: %s\<newline>'' [Arg_str inp],
      Printf ''Output directory: %s\<newline>'' [Arg_str outd]]"

subsection \<open>A small system to run the wrapper on\<close>

text \<open>
  A system in which the file system is the list of the directories that exist, each under
  its absolute pathname: \<^verbatim>\<open>chdir\<close> succeeds on exactly these (one trailing slash is
  ignored), and \<^verbatim>\<open>getcwd\<close> is refused when the working directory has been removed. Its
  \<^verbatim>\<open>main\<close> returns the given status and, when \<open>wipe\<close> is set, removes every directory
  but the one it runs in.
\<close>

definition strip_slash :: "path \<Rightarrow> path" where
  "strip_slash pth = (if 1 < length pth \<and> last pth = CHR ''/'' then butlast pth else pth)"

definition dirs_env :: "c_int \<Rightarrow> bool \<Rightarrow> (path list) env" where
  "dirs_env status wipe =
     \<lparr> getcwd_fails = (\<lambda>p. cwd p \<notin> set (fs p)),
       chdir_target =
         (\<lambda>p pth. if strip_slash pth \<in> set (fs p) then Some (strip_slash pth) else None),
       main = (\<lambda>argc argv p. (status, if wipe then p\<lparr>fs := [cwd p]\<rparr> else p)) \<rparr>"

definition home_world :: "(path list) world" where
  "home_world = \<lparr> proc = \<lparr> cwd = ''/home'', fs = [''/home'', ''/out''] \<rparr>, trace = [] \<rparr>"

definition lost_world :: "(path list) world" where
  "lost_world = \<lparr> proc = \<lparr> cwd = ''/gone'', fs = [''/out''] \<rparr>, trace = [] \<rparr>"

text \<open>
  Two more states with the working directory \<^verbatim>\<open>/home\<close>: one in which the output
  directory \<^verbatim>\<open>/out\<close> does not exist, and one with a further directory and earlier
  output.
\<close>

definition bare_world :: "(path list) world" where
  "bare_world = \<lparr> proc = \<lparr> cwd = ''/home'', fs = [''/home''] \<rparr>, trace = [] \<rparr>"

definition busy_world :: "(path list) world" where
  "busy_world = \<lparr> proc = \<lparr> cwd = ''/home'', fs = [''/home'', ''/out'', ''/tmp''] \<rparr>,
                  trace = [Printf ''earlier output'' []] \<rparr>"

text \<open>
  The same system with a \<^verbatim>\<open>main\<close> that changes directory itself: it creates and enters
  \<^verbatim>\<open>/tmp2\<close> and removes the caller's directory, so that only \<^verbatim>\<open>/out\<close> and \<^verbatim>\<open>/tmp2\<close>
  are left.
\<close>

definition mover_env :: "c_int \<Rightarrow> (path list) env" where
  "mover_env status =
     \<lparr> getcwd_fails = (\<lambda>p. cwd p \<notin> set (fs p)),
       chdir_target =
         (\<lambda>p pth. if strip_slash pth \<in> set (fs p) then Some (strip_slash pth) else None),
       main = (\<lambda>argc argv p. (status, p\<lparr>cwd := ''/tmp2'', fs := [''/out'', ''/tmp2'']\<rparr>)) \<rparr>"

section \<open>Properties\<close>

subsection \<open>The library calls\<close>

lemma main_calls_append: "main_calls (xs @ ys) = main_calls xs @ main_calls ys"
  by (induction xs rule: main_calls.induct) simp_all

lemma parse_s_Inr: "parse_s ob = Inr s \<longleftrightarrow> ob = PyStr s \<and> CHR 0x00 \<notin> set s"
  by (cases ob) (auto simp: parse_s_def)

lemma PyArg_ParseTuple_ss_Inr:
  "PyArg_ParseTuple_ss args = Inr (a, b) \<longleftrightarrow>
     args = [PyStr a, PyStr b] \<and> CHR 0x00 \<notin> set a \<and> CHR 0x00 \<notin> set b"
proof (cases args)
  case Nil
  then show ?thesis by (simp add: PyArg_ParseTuple_ss_def)
next
  case (Cons x xs)
  note outer = Cons
  show ?thesis
  proof (cases xs)
    case Nil
    with outer show ?thesis by (simp add: PyArg_ParseTuple_ss_def)
  next
    case (Cons y ys)
    with outer show ?thesis
      by (cases ys)
        (auto simp: PyArg_ParseTuple_ss_def parse_s_def split: sum.splits pyobj.splits if_splits)
  qed
qed

lemma getcwd_Some: "getcwd env p sz = Some d \<Longrightarrow> d = cwd p \<and> length d < sz"
  by (auto simp: getcwd_def split: if_splits)

lemma sint_long_of_int: "sint (scast (r :: c_int) :: c_long) = sint r"
  by (rule sint_up_scast) (simp add: is_up)

subsection \<open>The paths through the wrapper\<close>

lemma run_parse_error:
  "PyArg_ParseTuple_ss args = Inl e \<Longrightarrow> run_nbody_simulation env args w = (Inl e, w)"
  by (simp add: run_nbody_simulation_def)

lemma run_getcwd_error:
  assumes "PyArg_ParseTuple_ss args = Inr (inp, outd)"
    and "getcwd env (proc w) 1024 = None"
  shows "run_nbody_simulation env args w =
           (Inl (PyExc_OSError ''Cannot get current directory''),
            w\<lparr>trace := trace w @ banner inp outd\<rparr>)"
  using assms by (simp add: run_nbody_simulation_def Let_def printf_def banner_def)

lemma run_chdir_error:
  assumes "PyArg_ParseTuple_ss args = Inr (inp, outd)"
    and "getcwd env (proc w) 1024 = Some orig"
    and "chdir_target env (proc w) outd = None"
  shows "run_nbody_simulation env args w =
           (Inl (PyExc_OSError ''Cannot change to output directory''),
            w\<lparr>trace := trace w @ banner inp outd\<rparr>)"
  using assms
  by (simp add: run_nbody_simulation_def Let_def printf_def banner_def chdir_def)

lemma run_main_returns:
  assumes "PyArg_ParseTuple_ss args = Inr (inp, outd)"
    and "getcwd env (proc w) 1024 = Some orig"
    and "chdir_target env (proc w) outd = Some d"
    and "main env 2 [Some ''nbody_comp'', Some inp, None] ((proc w)\<lparr>cwd := d\<rparr>) = (r, p2)"
  shows "run_nbody_simulation env args w =
           (Inr (PyLong (sint r)),
            \<lparr> proc = (case chdir_target env p2 orig of
                        None \<Rightarrow> p2
                      | Some d' \<Rightarrow> p2\<lparr>cwd := d'\<rparr>),
              trace = trace w @ banner inp outd
                @ [Call_main 2 [Some ''nbody_comp'', Some inp, None]]
                @ (case chdir_target env p2 orig of
                     None \<Rightarrow> [Printf ''Warning: Could not restore original directory\<newline>'' []]
                   | Some d' \<Rightarrow> [])
                @ [Printf ''N-body simulation completed with return code: %d\<newline>''
                     [Arg_int (sint r)]] \<rparr>)"
  using assms
  by (simp add: run_nbody_simulation_def Let_def printf_def banner_def chdir_def
      call_main_def PyLong_FromLong_def sint_long_of_int split: option.splits)

text \<open>Every call takes one of four paths.\<close>

lemma run_cases:
  obtains
    (parse_error) e where "PyArg_ParseTuple_ss args = Inl e"
  | (getcwd_error) inp outd where "PyArg_ParseTuple_ss args = Inr (inp, outd)"
      "getcwd env (proc w) 1024 = None"
  | (chdir_error) inp outd orig where "PyArg_ParseTuple_ss args = Inr (inp, outd)"
      "getcwd env (proc w) 1024 = Some orig" "chdir_target env (proc w) outd = None"
  | (main_returns) inp outd orig d r p2 where "PyArg_ParseTuple_ss args = Inr (inp, outd)"
      "getcwd env (proc w) 1024 = Some orig" "chdir_target env (proc w) outd = Some d"
      "main env 2 [Some ''nbody_comp'', Some inp, None] ((proc w)\<lparr>cwd := d\<rparr>) = (r, p2)"
proof (cases "PyArg_ParseTuple_ss args")
  case (Inl e)
  then show ?thesis by (rule parse_error)
next
  case (Inr io)
  obtain inp outd where io: "io = (inp, outd)" by (cases io)
  show ?thesis
  proof (cases "getcwd env (proc w) 1024")
    case None
    with Inr io show ?thesis by (simp add: getcwd_error)
  next
    case orig: (Some orig)
    show ?thesis
    proof (cases "chdir_target env (proc w) outd")
      case None
      with Inr io orig show ?thesis by (simp add: chdir_error)
    next
      case (Some d)
      obtain r p2 where
        "main env 2 [Some ''nbody_comp'', Some inp, None] ((proc w)\<lparr>cwd := d\<rparr>) = (r, p2)"
        by (cases "main env 2 [Some ''nbody_comp'', Some inp, None] ((proc w)\<lparr>cwd := d\<rparr>)")
      with Inr io orig Some show ?thesis by (simp add: main_returns)
    qed
  qed
qed

subsection \<open>Facts about the small system\<close>

lemma ex_parse:
  "PyArg_ParseTuple_ss [PyStr ''in.txt'', PyStr ''/out''] = Inr (''in.txt'', ''/out'')"
  by (simp add: PyArg_ParseTuple_ss_def parse_s_def)

lemma ex_parse_slash:
  "PyArg_ParseTuple_ss [PyStr ''in.txt'', PyStr ''/out/''] = Inr (''in.txt'', ''/out/'')"
  by (simp add: PyArg_ParseTuple_ss_def parse_s_def)

lemma ex_parse_missing:
  "PyArg_ParseTuple_ss [PyStr ''in.txt'', PyStr ''/missing'']
     = Inr (''in.txt'', ''/missing'')"
  by (simp add: PyArg_ParseTuple_ss_def parse_s_def)

lemma ex_parse_long: "PyArg_ParseTuple_ss [PyStr ''in.txt'', PyLong 7] = Inl PyExc_TypeError"
  by (simp add: PyArg_ParseTuple_ss_def parse_s_def)

lemma ex_parse_one: "PyArg_ParseTuple_ss [PyStr ''in.txt''] = Inl PyExc_TypeError"
  by (simp add: PyArg_ParseTuple_ss_def)

lemma ex_parse_nul:
  "PyArg_ParseTuple_ss [PyStr [CHR ''a'', CHR 0x00, CHR ''b''], PyStr ''/out'']
     = Inl PyExc_ValueError"
  by (simp add: PyArg_ParseTuple_ss_def parse_s_def)

lemma ex_getcwd: "getcwd (dirs_env st wipe) (proc home_world) 1024 = Some ''/home''"
  by (simp add: getcwd_def dirs_env_def home_world_def)

lemma ex_getcwd_lost: "getcwd (dirs_env st wipe) (proc lost_world) 1024 = None"
  by (simp add: getcwd_def dirs_env_def lost_world_def)

lemma ex_chdir: "chdir_target (dirs_env st wipe) (proc home_world) ''/out'' = Some ''/out''"
  by (simp add: dirs_env_def home_world_def strip_slash_def)

lemma ex_chdir_slash:
  "chdir_target (dirs_env st wipe) (proc home_world) ''/out/''
     = chdir_target (dirs_env st wipe) (proc home_world) ''/out''"
  by (simp add: dirs_env_def home_world_def strip_slash_def)

lemma ex_chdir_missing:
  "chdir_target (dirs_env st wipe) (proc home_world) ''/missing'' = None"
  by (simp add: dirs_env_def home_world_def strip_slash_def)

lemma ex_main_keep:
  "main (dirs_env st False) 2 [Some ''nbody_comp'', Some ''in.txt'', None]
     ((proc home_world)\<lparr>cwd := ''/out''\<rparr>)
   = (st, \<lparr> cwd = ''/out'', fs = [''/home'', ''/out''] \<rparr>)"
  by (simp add: dirs_env_def home_world_def)

lemma ex_main_wipe:
  "main (dirs_env st True) 2 [Some ''nbody_comp'', Some ''in.txt'', None]
     ((proc home_world)\<lparr>cwd := ''/out''\<rparr>)
   = (st, \<lparr> cwd = ''/out'', fs = [''/out''] \<rparr>)"
  by (simp add: dirs_env_def home_world_def)

lemma ex_restore:
  "chdir_target (dirs_env st wipe) \<lparr> cwd = ''/out'', fs = [''/home'', ''/out''] \<rparr> ''/home''
     = Some ''/home''"
  by (simp add: dirs_env_def strip_slash_def)

lemma ex_restore_fails:
  "chdir_target (dirs_env st wipe) \<lparr> cwd = ''/out'', fs = [''/out''] \<rparr> ''/home'' = None"
  by (simp add: dirs_env_def strip_slash_def)

lemma ex_main_fixed:
  "\<forall>argc argv p p'. fst (main (dirs_env st wipe) argc argv p)
     = fst (main (dirs_env st wipe) argc argv p')"
  by (simp add: dirs_env_def)

lemma ex_getcwd_busy: "getcwd (dirs_env st wipe) (proc busy_world) 1024 = Some ''/home''"
  by (simp add: getcwd_def dirs_env_def busy_world_def)

lemma ex_chdir_busy: "chdir_target (dirs_env st wipe) (proc busy_world) ''/out'' = Some ''/out''"
  by (simp add: dirs_env_def busy_world_def strip_slash_def)

lemma ex_getcwd_mover: "getcwd (mover_env st) (proc home_world) 1024 = Some ''/home''"
  by (simp add: getcwd_def mover_env_def home_world_def)

lemma ex_chdir_mover: "chdir_target (mover_env st) (proc home_world) ''/out'' = Some ''/out''"
  by (simp add: mover_env_def home_world_def strip_slash_def)

lemma ex_main_mover:
  "main (mover_env st) 2 [Some ''nbody_comp'', Some ''in.txt'', None]
     ((proc home_world)\<lparr>cwd := ''/out''\<rparr>)
   = (st, \<lparr> cwd = ''/tmp2'', fs = [''/out'', ''/tmp2''] \<rparr>)"
  by (simp add: mover_env_def home_world_def)

lemma ex_restore_fails_mover:
  "chdir_target (mover_env st) \<lparr> cwd = ''/tmp2'', fs = [''/out'', ''/tmp2''] \<rparr> ''/home'' = None"
  by (simp add: mover_env_def strip_slash_def)

section \<open>The claims\<close>

text \<open>
  C1. Whenever the two strings are parsed, the working directory is saved and the change
  to the output directory succeeds, the wrapper calls the external \<^verbatim>\<open>main\<close> exactly
  once and returns the Python integer whose value is the \<^verbatim>\<open>int\<close> that \<^verbatim>\<open>main\<close>
  returned: 0 exactly when \<^verbatim>\<open>main\<close> returned 0, and any other status unchanged.
\<close>

theorem main_status_relayed:
  assumes "PyArg_ParseTuple_ss args = Inr (inp, outd)"
    and "getcwd env (proc w) 1024 = Some orig"
    and "chdir_target env (proc w) outd = Some d"
    and "main env 2 [Some ''nbody_comp'', Some inp, None] ((proc w)\<lparr>cwd := d\<rparr>) = (r, p2)"
  shows "main_calls (trace (snd (run_nbody_simulation env args w)))
           = main_calls (trace w) @ [(2, [Some ''nbody_comp'', Some inp, None])]
       \<and> fst (run_nbody_simulation env args w) = Inr (PyLong (sint r))
       \<and> (fst (run_nbody_simulation env args w) = Inr (PyLong 0) \<longleftrightarrow> r = 0)"
  using run_main_returns [OF assms]
  by (simp add: main_calls_append banner_def signed_eq_0_iff split: option.splits)

theorem main_status_relayed_witness:
  "main_calls (trace (snd (run_nbody_simulation (dirs_env 3 False)
       [PyStr ''in.txt'', PyStr ''/out''] home_world)))
     = [(2, [Some ''nbody_comp'', Some ''in.txt'', None])]
   \<and> fst (run_nbody_simulation (dirs_env 3 False)
       [PyStr ''in.txt'', PyStr ''/out''] home_world) = Inr (PyLong 3)"
  using main_status_relayed [OF ex_parse ex_getcwd ex_chdir ex_main_keep, of 3]
  by (simp add: home_world_def)

text \<open>
  C2, as stated, fails where the change back to the saved directory fails: in the small
  system, a \<^verbatim>\<open>main\<close> that removes the caller's directory is called once, and the call
  that started in \<^verbatim>\<open>/home\<close> returns with the process in \<^verbatim>\<open>/out\<close>.
\<close>

theorem cwd_not_restored_counterexample:
  "main_calls (trace (snd (run_nbody_simulation (dirs_env 0 True)
       [PyStr ''in.txt'', PyStr ''/out''] home_world)))
     = [(2, [Some ''nbody_comp'', Some ''in.txt'', None])]
   \<and> cwd (proc home_world) = ''/home''
   \<and> cwd (proc (snd (run_nbody_simulation (dirs_env 0 True)
       [PyStr ''in.txt'', PyStr ''/out''] home_world))) = ''/out''"
  by (simp add: run_nbody_simulation_def Let_def PyArg_ParseTuple_ss_def parse_s_def
      printf_def getcwd_def chdir_def call_main_def dirs_env_def home_world_def strip_slash_def)

text \<open>
  C2, amended. On every call that invokes the external \<^verbatim>\<open>main\<close>, the wrapper's last
  directory operation is \<^verbatim>\<open>chdir\<close> to the pathname of the working directory at entry,
  and the working directory at return is the directory that \<^verbatim>\<open>chdir\<close> led to or, when
  it failed, the directory \<^verbatim>\<open>main\<close> left the process in. So the caller's working
  directory is unchanged by the call exactly when the change back succeeds and leads to the
  entry directory, or fails with \<^verbatim>\<open>main\<close> having left the process in the entry
  directory.
\<close>

theorem cwd_restored_iff_chdir_back_leads_to_entry_dir:
  assumes "PyArg_ParseTuple_ss args = Inr (inp, outd)"
    and "getcwd env (proc w) 1024 = Some orig"
    and "chdir_target env (proc w) outd = Some d"
    and "main env 2 [Some ''nbody_comp'', Some inp, None] ((proc w)\<lparr>cwd := d\<rparr>) = (r, p2)"
  shows "orig = cwd (proc w)
       \<and> cwd (proc (snd (run_nbody_simulation env args w)))
           = (case chdir_target env p2 orig of None \<Rightarrow> cwd p2 | Some d' \<Rightarrow> d')
       \<and> (cwd (proc (snd (run_nbody_simulation env args w))) = cwd (proc w) \<longleftrightarrow>
            chdir_target env p2 orig = Some orig
            \<or> (chdir_target env p2 orig = None \<and> cwd p2 = orig))"
proof -
  from getcwd_Some [OF assms(2)] have orig: "orig = cwd (proc w)" by simp
  have final: "cwd (proc (snd (run_nbody_simulation env args w)))
      = (case chdir_target env p2 orig of None \<Rightarrow> cwd p2 | Some d' \<Rightarrow> d')"
    using run_main_returns [OF assms] by (simp split: option.splits)
  have "(case chdir_target env p2 orig of None \<Rightarrow> cwd p2 | Some d' \<Rightarrow> d') = orig \<longleftrightarrow>
      chdir_target env p2 orig = Some orig \<or> (chdir_target env p2 orig = None \<and> cwd p2 = orig)"
    by (cases "chdir_target env p2 orig") simp_all
  with orig final show ?thesis by simp
qed

theorem cwd_restored_iff_chdir_back_leads_to_entry_dir_witness:
  "cwd (proc home_world) = ''/home''
   \<and> cwd (proc (snd (run_nbody_simulation (dirs_env 0 False)
       [PyStr ''in.txt'', PyStr ''/out''] home_world))) = ''/home''
   \<and> cwd (proc (snd (run_nbody_simulation (dirs_env 0 True)
       [PyStr ''in.txt'', PyStr ''/out''] home_world))) = ''/out''"
proof -
  note keep = cwd_restored_iff_chdir_back_leads_to_entry_dir
      [OF ex_parse ex_getcwd ex_chdir ex_main_keep, of 0, THEN conjunct2, THEN conjunct1]
  note wipe = cwd_restored_iff_chdir_back_leads_to_entry_dir
      [OF ex_parse ex_getcwd ex_chdir ex_main_wipe, of 0, THEN conjunct2, THEN conjunct1]
  have entry: "cwd (proc home_world) = ''/home''"
    by (simp add: home_world_def)
  have restored: "cwd (proc (snd (run_nbody_simulation (dirs_env 0 False)
       [PyStr ''in.txt'', PyStr ''/out''] home_world))) = ''/home''"
    using keep by (simp add: ex_restore)
  have left: "cwd (proc (snd (run_nbody_simulation (dirs_env 0 True)
       [PyStr ''in.txt'', PyStr ''/out''] home_world))) = ''/out''"
    using wipe by (simp add: ex_restore_fails)
  from entry restored left show ?thesis by (intro conjI)
qed

text \<open>
  C3, as stated, fails: the output directory path is not among the arguments of the entry
  point. In the small system the one call of \<^verbatim>\<open>main\<close> gets the program name, the input
  path and the terminating \<^verbatim>\<open>NULL\<close>; the output path \<^verbatim>\<open>/out\<close> is no entry of
  \<^verbatim>\<open>argv\<close>.
\<close>

theorem output_dir_not_an_argument_counterexample:
  "main_calls (trace (snd (run_nbody_simulation (dirs_env 0 False)
       [PyStr ''in.txt'', PyStr ''/out''] home_world)))
     = [(2, [Some ''nbody_comp'', Some ''in.txt'', None])]
   \<and> Some ''/out'' \<notin> set (main_argv_entries (trace (snd (run_nbody_simulation
       (dirs_env 0 False) [PyStr ''in.txt'', PyStr ''/out''] home_world))))"
  by (simp add: run_nbody_simulation_def Let_def PyArg_ParseTuple_ss_def parse_s_def
      printf_def getcwd_def chdir_def call_main_def dirs_env_def home_world_def strip_slash_def
      main_argv_entries_def)

text \<open>
  C3, amended. The wrapper invokes the wrapped program's entry point \<^verbatim>\<open>main(argc, argv)\<close>:
  the \<^verbatim>\<open>argv\<close> entries it hands over are the program name, the input file path and the
  terminating \<^verbatim>\<open>NULL\<close>; the output directory is not an argument but the working
  directory in which \<^verbatim>\<open>main\<close> runs; and the status that \<^verbatim>\<open>main\<close> returns there is
  what the wrapper receives and returns.
\<close>

theorem main_gets_input_path_and_runs_in_output_dir:
  assumes "PyArg_ParseTuple_ss args = Inr (inp, outd)"
    and "getcwd env (proc w) 1024 = Some orig"
    and "chdir_target env (proc w) outd = Some d"
  shows "main_argv_entries (trace (snd (run_nbody_simulation env args w)))
           = main_argv_entries (trace w) @ [Some ''nbody_comp'', Some inp, None]
       \<and> fst (run_nbody_simulation env args w)
           = Inr (PyLong (sint (fst (main env 2 [Some ''nbody_comp'', Some inp, None]
                                      ((proc w)\<lparr>cwd := d\<rparr>)))))"
proof -
  obtain r p2 where
    m: "main env 2 [Some ''nbody_comp'', Some inp, None] ((proc w)\<lparr>cwd := d\<rparr>) = (r, p2)"
    by (cases "main env 2 [Some ''nbody_comp'', Some inp, None] ((proc w)\<lparr>cwd := d\<rparr>)")
  show ?thesis
    using run_main_returns [OF assms m] m
    by (simp add: main_argv_entries_def main_calls_append banner_def split: option.splits)
qed

theorem main_gets_input_path_and_runs_in_output_dir_witness:
  "main_argv_entries (trace (snd (run_nbody_simulation (dirs_env 5 False)
       [PyStr ''in.txt'', PyStr ''/out''] home_world)))
     = [Some ''nbody_comp'', Some ''in.txt'', None]
   \<and> fst (run_nbody_simulation (dirs_env 5 False)
       [PyStr ''in.txt'', PyStr ''/out''] home_world) = Inr (PyLong 5)"
  using main_gets_input_path_and_runs_in_output_dir [OF ex_parse ex_getcwd ex_chdir, of 5 False]
    ex_main_keep [of 5]
  by (simp add: home_world_def main_argv_entries_def)

text \<open>
  C4. Whenever the change to the output directory fails (the arguments having been parsed
  and the working directory saved), the call returns \<^verbatim>\<open>NULL\<close> with an \<^verbatim>\<open>OSError\<close>
  pending, the external \<^verbatim>\<open>main\<close> is not called, and the process state, the working
  directory in particular, is as at entry.
\<close>

theorem chdir_failure_raises_OSError:
  assumes "PyArg_ParseTuple_ss args = Inr (inp, outd)"
    and "getcwd env (proc w) 1024 = Some orig"
    and "chdir_target env (proc w) outd = None"
  shows "fst (run_nbody_simulation env args w)
           = Inl (PyExc_OSError ''Cannot change to output directory'')
       \<and> main_calls (trace (snd (run_nbody_simulation env args w))) = main_calls (trace w)
       \<and> proc (snd (run_nbody_simulation env args w)) = proc w"
  using run_chdir_error [OF assms]
  by (simp add: main_calls_append banner_def)

theorem chdir_failure_raises_OSError_witness:
  "fst (run_nbody_simulation (dirs_env 0 False) [PyStr ''in.txt'', PyStr ''/missing''] home_world)
     = Inl (PyExc_OSError ''Cannot change to output directory'')
   \<and> main_calls (trace (snd (run_nbody_simulation (dirs_env 0 False)
        [PyStr ''in.txt'', PyStr ''/missing''] home_world))) = []
   \<and> cwd (proc (snd (run_nbody_simulation (dirs_env 0 False)
        [PyStr ''in.txt'', PyStr ''/missing''] home_world))) = ''/home''"
  using chdir_failure_raises_OSError [OF ex_parse_missing ex_getcwd ex_chdir_missing, of 0 False]
  by (simp add: home_world_def)

text \<open>
  C5. Whenever the arguments cannot be parsed as two strings, the call returns \<^verbatim>\<open>NULL\<close>
  with the parser's exception pending and nothing has happened: the state at return is the
  state at entry, so the working directory is unchanged, nothing is printed and the
  external \<^verbatim>\<open>main\<close> is not called.
\<close>

theorem parse_failure_has_no_effect:
  assumes "PyArg_ParseTuple_ss args = Inl e"
  shows "run_nbody_simulation env args w = (Inl e, w)"
  using assms by (simp add: run_nbody_simulation_def)

theorem parse_failure_has_no_effect_witness:
  "run_nbody_simulation (dirs_env 0 False) [PyStr ''in.txt'', PyLong 7] home_world
     = (Inl PyExc_TypeError, home_world)
   \<and> run_nbody_simulation (dirs_env 0 False) [PyStr ''in.txt''] home_world
     = (Inl PyExc_TypeError, home_world)
   \<and> run_nbody_simulation (dirs_env 0 False)
        [PyStr [CHR ''a'', CHR 0x00, CHR ''b''], PyStr ''/out''] home_world
     = (Inl PyExc_ValueError, home_world)"
  using parse_failure_has_no_effect [OF ex_parse_long, of "dirs_env 0 False" home_world]
    parse_failure_has_no_effect [OF ex_parse_one, of "dirs_env 0 False" home_world]
    parse_failure_has_no_effect [OF ex_parse_nul, of "dirs_env 0 False" home_world]
  by simp

text \<open>
  C6, as stated, fails: the same working directory is not enough. In the small system,
  whose \<^verbatim>\<open>main\<close> returns the status 3 whatever the process state, two calls with the
  same two strings start in \<^verbatim>\<open>/home\<close>; the one where \<^verbatim>\<open>/out\<close> exists returns the
  integer 3, the one where it does not raises \<^verbatim>\<open>OSError\<close>.
\<close>

theorem same_cwd_different_result_counterexample:
  "cwd (proc home_world) = cwd (proc bare_world)
   \<and> fst (run_nbody_simulation (dirs_env 3 False) [PyStr ''in.txt'', PyStr ''/out''] home_world)
       = Inr (PyLong 3)
   \<and> fst (run_nbody_simulation (dirs_env 3 False) [PyStr ''in.txt'', PyStr ''/out''] bare_world)
       = Inl (PyExc_OSError ''Cannot change to output directory'')"
  by (simp add: run_nbody_simulation_def Let_def PyArg_ParseTuple_ss_def parse_s_def
      printf_def getcwd_def chdir_def call_main_def PyLong_FromLong_def dirs_env_def
      home_world_def bare_world_def strip_slash_def)

text \<open>
  C6, amended. With the external \<^verbatim>\<open>main\<close> a fixed function of its arguments (its status
  does not depend on the process state), two calls with the same two argument strings
  return equal results, the same integer or the same exception, whenever \<^verbatim>\<open>getcwd\<close>
  succeeds in both or fails in both and the change to the output directory succeeds in
  both or fails in both; nothing else of the two starting states matters.
\<close>

theorem run_deterministic:
  assumes parse: "PyArg_ParseTuple_ss args = Inr (inp, outd)"
    and fixed: "\<forall>argc argv p p'. fst (main env argc argv p) = fst (main env argc argv p')"
    and g: "getcwd env (proc w1) 1024 = None \<longleftrightarrow> getcwd env (proc w2) 1024 = None"
    and c: "chdir_target env (proc w1) outd = None
              \<longleftrightarrow> chdir_target env (proc w2) outd = None"
  shows "fst (run_nbody_simulation env args w1) = fst (run_nbody_simulation env args w2)"
proof (cases "getcwd env (proc w1) 1024")
  case None
  with g have none2: "getcwd env (proc w2) 1024 = None" by simp
  from run_getcwd_error [OF parse None] run_getcwd_error [OF parse none2]
  show ?thesis by simp
next
  case o1: (Some orig1)
  with g obtain orig2 where o2: "getcwd env (proc w2) 1024 = Some orig2" by auto
  show ?thesis
  proof (cases "chdir_target env (proc w1) outd")
    case None
    with c have none2: "chdir_target env (proc w2) outd = None" by simp
    from run_chdir_error [OF parse o1 None] run_chdir_error [OF parse o2 none2]
    show ?thesis by simp
  next
    case d1: (Some d1)
    with c obtain d2 where d2: "chdir_target env (proc w2) outd = Some d2" by auto
    obtain r1 q1 where
      m1: "main env 2 [Some ''nbody_comp'', Some inp, None] ((proc w1)\<lparr>cwd := d1\<rparr>) = (r1, q1)"
      by (cases "main env 2 [Some ''nbody_comp'', Some inp, None] ((proc w1)\<lparr>cwd := d1\<rparr>)")
    obtain r2 q2 where
      m2: "main env 2 [Some ''nbody_comp'', Some inp, None] ((proc w2)\<lparr>cwd := d2\<rparr>) = (r2, q2)"
      by (cases "main env 2 [Some ''nbody_comp'', Some inp, None] ((proc w2)\<lparr>cwd := d2\<rparr>)")
    have "fst (main env 2 [Some ''nbody_comp'', Some inp, None] ((proc w1)\<lparr>cwd := d1\<rparr>))
        = fst (main env 2 [Some ''nbody_comp'', Some inp, None] ((proc w2)\<lparr>cwd := d2\<rparr>))"
      by (rule fixed [rule_format])
    with m1 m2 have same: "r1 = r2" by simp
    from run_main_returns [OF parse o1 d1 m1] run_main_returns [OF parse o2 d2 m2] same
    show ?thesis by simp
  qed
qed

theorem run_deterministic_witness:
  "fst (run_nbody_simulation (dirs_env 3 False) [PyStr ''in.txt'', PyStr ''/out''] home_world)
     = Inr (PyLong 3)
   \<and> fst (run_nbody_simulation (dirs_env 3 False) [PyStr ''in.txt'', PyStr ''/out''] busy_world)
     = Inr (PyLong 3)"
proof -
  have g: "getcwd (dirs_env 3 False) (proc home_world) 1024 = None
      \<longleftrightarrow> getcwd (dirs_env 3 False) (proc busy_world) 1024 = None"
    by (simp add: ex_getcwd ex_getcwd_busy)
  have c: "chdir_target (dirs_env 3 False) (proc home_world) ''/out'' = None
      \<longleftrightarrow> chdir_target (dirs_env 3 False) (proc busy_world) ''/out'' = None"
    by (simp add: ex_chdir ex_chdir_busy)
  have home: "fst (run_nbody_simulation (dirs_env 3 False)
      [PyStr ''in.txt'', PyStr ''/out''] home_world) = Inr (PyLong 3)"
    using run_main_returns [OF ex_parse ex_getcwd ex_chdir ex_main_keep, of 3] by simp
  from run_deterministic [OF ex_parse ex_main_fixed g c] home
  show ?thesis by simp
qed

text \<open>
  C7. Whenever \<^verbatim>\<open>getcwd\<close> fails (the arguments having been parsed), the call returns
  \<^verbatim>\<open>NULL\<close> with an \<^verbatim>\<open>OSError\<close> pending, the process state, the working directory in
  particular, is unchanged, and the external \<^verbatim>\<open>main\<close> is not called.
\<close>

theorem getcwd_failure_raises_OSError:
  assumes "PyArg_ParseTuple_ss args = Inr (inp, outd)"
    and "getcwd env (proc w) 1024 = None"
  shows "fst (run_nbody_simulation env args w)
           = Inl (PyExc_OSError ''Cannot get current directory'')
       \<and> proc (snd (run_nbody_simulation env args w)) = proc w
       \<and> main_calls (trace (snd (run_nbody_simulation env args w))) = main_calls (trace w)"
  using run_getcwd_error [OF assms]
  by (simp add: main_calls_append banner_def)

theorem getcwd_failure_raises_OSError_witness:
  "fst (run_nbody_simulation (dirs_env 0 False) [PyStr ''in.txt'', PyStr ''/out''] lost_world)
     = Inl (PyExc_OSError ''Cannot get current directory'')
   \<and> cwd (proc (snd (run_nbody_simulation (dirs_env 0 False)
        [PyStr ''in.txt'', PyStr ''/out''] lost_world))) = ''/gone''
   \<and> main_calls (trace (snd (run_nbody_simulation (dirs_env 0 False)
        [PyStr ''in.txt'', PyStr ''/out''] lost_world))) = []"
  using getcwd_failure_raises_OSError [OF ex_parse ex_getcwd_lost, of 0 False]
  by (simp add: lost_world_def)

text \<open>
  C8, as stated, fails in its last clause: after a failed change back the process need not
  be in the output directory. In the system whose \<^verbatim>\<open>main\<close> enters \<^verbatim>\<open>/tmp2\<close> and
  removes the caller's directory, the change to \<^verbatim>\<open>/out\<close> succeeds, the call returns
  \<^verbatim>\<open>main\<close>'s status 7 and prints the warning, and the process ends in \<^verbatim>\<open>/tmp2\<close>.
\<close>

theorem restore_failure_not_in_output_dir_counterexample:
  "chdir_target (mover_env 7) (proc home_world) ''/out'' = Some ''/out''
   \<and> fst (run_nbody_simulation (mover_env 7) [PyStr ''in.txt'', PyStr ''/out''] home_world)
       = Inr (PyLong 7)
   \<and> Printf ''Warning: Could not restore original directory\<newline>'' []
       \<in> set (trace (snd (run_nbody_simulation (mover_env 7)
            [PyStr ''in.txt'', PyStr ''/out''] home_world)))
   \<and> cwd (proc (snd (run_nbody_simulation (mover_env 7)
        [PyStr ''in.txt'', PyStr ''/out''] home_world))) = ''/tmp2''"
  by (simp add: run_nbody_simulation_def Let_def PyArg_ParseTuple_ss_def parse_s_def
      printf_def getcwd_def chdir_def call_main_def PyLong_FromLong_def mover_env_def
      home_world_def strip_slash_def)

text \<open>
  C8, amended. A failed change back to the saved directory after \<^verbatim>\<open>main\<close> has returned
  is not fatal: the call still returns \<^verbatim>\<open>main\<close>'s status as a Python integer and raises
  nothing; it prints the warning before the completion line; and the process is left in
  the state, the working directory included, in which \<^verbatim>\<open>main\<close> left it, which is the
  directory the output path led to if \<^verbatim>\<open>main\<close> did not change directory itself.
\<close>

theorem restore_failure_is_not_fatal:
  assumes "PyArg_ParseTuple_ss args = Inr (inp, outd)"
    and "getcwd env (proc w) 1024 = Some orig"
    and "chdir_target env (proc w) outd = Some d"
    and "main env 2 [Some ''nbody_comp'', Some inp, None] ((proc w)\<lparr>cwd := d\<rparr>) = (r, p2)"
    and "chdir_target env p2 orig = None"
  shows "fst (run_nbody_simulation env args w) = Inr (PyLong (sint r))
       \<and> trace (snd (run_nbody_simulation env args w))
           = trace w @ banner inp outd
             @ [Call_main 2 [Some ''nbody_comp'', Some inp, None],
                Printf ''Warning: Could not restore original directory\<newline>'' [],
                Printf ''N-body simulation completed with return code: %d\<newline>''
                  [Arg_int (sint r)]]
       \<and> proc (snd (run_nbody_simulation env args w)) = p2
       \<and> (cwd p2 = d \<longrightarrow> cwd (proc (snd (run_nbody_simulation env args w))) = d)"
  using run_main_returns [OF assms(1-4)] assms(5)
  by simp

theorem restore_failure_is_not_fatal_witness:
  "fst (run_nbody_simulation (dirs_env 7 True) [PyStr ''in.txt'', PyStr ''/out''] home_world)
     = Inr (PyLong 7)
   \<and> Printf ''Warning: Could not restore original directory\<newline>'' []
       \<in> set (trace (snd (run_nbody_simulation (dirs_env 7 True)
            [PyStr ''in.txt'', PyStr ''/out''] home_world)))
   \<and> cwd (proc (snd (run_nbody_simulation (dirs_env 7 True)
        [PyStr ''in.txt'', PyStr ''/out''] home_world))) = ''/out''"
  using restore_failure_is_not_fatal
    [OF ex_parse ex_getcwd ex_chdir ex_main_wipe ex_restore_fails, of 7]
  by simp

text \<open>
  C9. The external \<^verbatim>\<open>main\<close> is only ever called with \<^verbatim>\<open>argc = 2\<close> and
  \<^verbatim>\<open>argv = {"nbody_comp", input_file_path, NULL}\<close>: a call of the wrapper adds to the
  calls of \<^verbatim>\<open>main\<close> either nothing or this one call. The output directory string is
  not handed to \<^verbatim>\<open>main\<close> and bears on the run only through the change of directory: two
  output directory strings for which \<^verbatim>\<open>chdir\<close> does the same (fails for both, or leads
  to the same directory) give the same result, the same final process state and the same
  calls of \<^verbatim>\<open>main\<close>.
\<close>

theorem main_argv_fixed_output_dir_only_through_chdir:
  assumes "PyArg_ParseTuple_ss args = Inr (inp, outd)"
  shows "(main_calls (trace (snd (run_nbody_simulation env args w))) = main_calls (trace w)
          \<or> main_calls (trace (snd (run_nbody_simulation env args w)))
              = main_calls (trace w) @ [(2, [Some ''nbody_comp'', Some inp, None])])
       \<and> (\<forall>args' outd'.
            PyArg_ParseTuple_ss args' = Inr (inp, outd')
            \<and> chdir_target env (proc w) outd' = chdir_target env (proc w) outd \<longrightarrow>
              fst (run_nbody_simulation env args' w) = fst (run_nbody_simulation env args w)
            \<and> proc (snd (run_nbody_simulation env args' w))
                = proc (snd (run_nbody_simulation env args w))
            \<and> main_calls (trace (snd (run_nbody_simulation env args' w)))
                = main_calls (trace (snd (run_nbody_simulation env args w))))"
proof (rule conjI)
  show "main_calls (trace (snd (run_nbody_simulation env args w))) = main_calls (trace w)
      \<or> main_calls (trace (snd (run_nbody_simulation env args w)))
          = main_calls (trace w) @ [(2, [Some ''nbody_comp'', Some inp, None])]"
  proof (cases "getcwd env (proc w) 1024")
    case None
    from run_getcwd_error [OF assms None] show ?thesis
      by (simp add: main_calls_append banner_def)
  next
    case orig: (Some orig)
    show ?thesis
    proof (cases "chdir_target env (proc w) outd")
      case None
      from run_chdir_error [OF assms orig None] show ?thesis
        by (simp add: main_calls_append banner_def)
    next
      case (Some d)
      obtain r p2 where
        m: "main env 2 [Some ''nbody_comp'', Some inp, None] ((proc w)\<lparr>cwd := d\<rparr>) = (r, p2)"
        by (cases "main env 2 [Some ''nbody_comp'', Some inp, None] ((proc w)\<lparr>cwd := d\<rparr>)")
      from run_main_returns [OF assms orig Some m] show ?thesis
        by (simp add: main_calls_append banner_def split: option.splits)
    qed
  qed
next
  show "\<forall>args' outd'.
      PyArg_ParseTuple_ss args' = Inr (inp, outd')
      \<and> chdir_target env (proc w) outd' = chdir_target env (proc w) outd \<longrightarrow>
        fst (run_nbody_simulation env args' w) = fst (run_nbody_simulation env args w)
      \<and> proc (snd (run_nbody_simulation env args' w))
          = proc (snd (run_nbody_simulation env args w))
      \<and> main_calls (trace (snd (run_nbody_simulation env args' w)))
          = main_calls (trace (snd (run_nbody_simulation env args w)))"
  proof (intro allI impI)
    fix args' outd'
    assume h: "PyArg_ParseTuple_ss args' = Inr (inp, outd')
      \<and> chdir_target env (proc w) outd' = chdir_target env (proc w) outd"
    then have parse': "PyArg_ParseTuple_ss args' = Inr (inp, outd')"
      and same: "chdir_target env (proc w) outd' = chdir_target env (proc w) outd"
      by simp_all
    show "fst (run_nbody_simulation env args' w) = fst (run_nbody_simulation env args w)
      \<and> proc (snd (run_nbody_simulation env args' w))
          = proc (snd (run_nbody_simulation env args w))
      \<and> main_calls (trace (snd (run_nbody_simulation env args' w)))
          = main_calls (trace (snd (run_nbody_simulation env args w)))"
    proof (cases "getcwd env (proc w) 1024")
      case None
      from run_getcwd_error [OF assms None] run_getcwd_error [OF parse' None]
      show ?thesis
        by (simp add: main_calls_append banner_def)
    next
      case orig: (Some orig)
      show ?thesis
      proof (cases "chdir_target env (proc w) outd")
        case None
        with same have none': "chdir_target env (proc w) outd' = None" by simp
        from run_chdir_error [OF assms orig None] run_chdir_error [OF parse' orig none']
        show ?thesis
          by (simp add: main_calls_append banner_def)
      next
        case (Some d)
        with same have some': "chdir_target env (proc w) outd' = Some d" by simp
        obtain r p2 where
          m: "main env 2 [Some ''nbody_comp'', Some inp, None] ((proc w)\<lparr>cwd := d\<rparr>) = (r, p2)"
          by (cases "main env 2 [Some ''nbody_comp'', Some inp, None] ((proc w)\<lparr>cwd := d\<rparr>)")
        from run_main_returns [OF assms orig Some m] run_main_returns [OF parse' orig some' m]
        show ?thesis
          by (simp add: main_calls_append banner_def)
      qed
    qed
  qed
qed

theorem main_argv_fixed_output_dir_only_through_chdir_witness:
  "main_calls (trace (snd (run_nbody_simulation (dirs_env 4 False)
       [PyStr ''in.txt'', PyStr ''/out''] home_world)))
     = [(2, [Some ''nbody_comp'', Some ''in.txt'', None])]
   \<and> fst (run_nbody_simulation (dirs_env 4 False) [PyStr ''in.txt'', PyStr ''/out/''] home_world)
     = fst (run_nbody_simulation (dirs_env 4 False) [PyStr ''in.txt'', PyStr ''/out''] home_world)
   \<and> main_calls (trace (snd (run_nbody_simulation (dirs_env 4 False)
       [PyStr ''in.txt'', PyStr ''/out/''] home_world)))
     = [(2, [Some ''nbody_comp'', Some ''in.txt'', None])]"
proof -
  have calls: "main_calls (trace (snd (run_nbody_simulation (dirs_env 4 False)
       [PyStr ''in.txt'', PyStr ''/out''] home_world)))
     = [(2, [Some ''nbody_comp'', Some ''in.txt'', None])]"
    using run_main_returns [OF ex_parse ex_getcwd ex_chdir ex_main_keep, of 4]
    by (simp add: main_calls_append banner_def home_world_def split: option.splits)
  note same = main_argv_fixed_output_dir_only_through_chdir
      [OF ex_parse, THEN conjunct2, rule_format,
        OF conjI [OF ex_parse_slash ex_chdir_slash], of 4 False]
  from same [THEN conjunct1] same [THEN conjunct2, THEN conjunct2] calls
  show ?thesis by simp
qed

end
